theory Spec2Isabelle
  imports Main
begin

section \<open>GoalQuest: the goal state engine of \<open>App.tsx\<close>\<close>

text \<open>
  A shallow embedding of the state handling of the \<open>App\<close> component: the goal
  collection with its mutators \<open>addGoal\<close>, \<open>toggleGoal\<close> and \<open>addPhoto\<close>, the effect
  that loads the collection from \<open>localStorage\<close>, and the effect that raises the daily
  reminder.

  Modelling decisions.
  \<^item> The interfaces \<open>PhotoEntry\<close> and \<open>Goal\<close> are records. Their \<open>id\<close> fields are named
    \<open>photo_id\<close> and \<open>goal_id\<close>, since \<open>id\<close> is the identity function of HOL.
  \<^item> \<open>streak\<close> is a JavaScript \<open>number\<close> that only ever holds a count; it is an \<open>int\<close>
    here. The rounding of doubles beyond \<open>2^53\<close> is outside the model.
  \<^item> \<open>lastCompletedDate: string | null\<close> is a \<open>string option\<close>; \<open>x === today\<close> for a
    string \<open>today\<close> is \<open>x = Some today\<close>.
  \<^item> The helpers of \<open>./utils\<close> (\<open>getTodayDateString\<close>, \<open>getYesterdayDateString\<close>,
    \<open>resizeImage\<close>) and the platform calls \<open>crypto.randomUUID()\<close>,
    \<open>new Date().toISOString()\<close> and \<open>JSON.parse\<close> are not part of \<open>App.tsx\<close>; the
    values they return are parameters of the functions below. \<open>toggleGoal\<close> and
    \<open>addPhoto\<close> make these calls inside the \<open>map\<close> callback, once for each goal with the
    given id; one parameter stands for the value of each call.
  \<^item> The React state (\<open>goals\<close>, \<open>loading\<close>, \<open>notification\<close>) and the environment the
    component writes to (\<open>localStorage\<close>, \<open>console.error\<close>, \<open>alert\<close>) are the fields of
    one state record that every operation takes and returns.
\<close>

subsection \<open>Data model\<close>

record PhotoEntry =
  photo_id :: string
  date :: string
  dataUrl :: string

record Goal =
  goal_id :: string
  title :: string
  description :: string
  createdAt :: string
  streak :: int
  lastCompletedDate :: "string option"
  photos :: "PhotoEntry list"

record app_state =
  goals :: "Goal list"
  loading :: bool
  notification :: "string option"
  localStorage :: "string \<rightharpoonup> string"
  console_errors :: "string list"
  alerts :: "string list"

text \<open>The state of a freshly mounted component: \<open>useState([])\<close>, \<open>useState(true)\<close>,
  \<open>useState(null)\<close>, over whatever the browser's storage holds.\<close>

definition initial_state :: "(string \<rightharpoonup> string) \<Rightarrow> app_state" where
  "initial_state store =
     \<lparr>goals = [], loading = True, notification = None,
      localStorage = store, console_errors = [], alerts = []\<rparr>"

subsection \<open>\<open>toggleGoal\<close>\<close>

text \<open>
  The body of the callback that \<open>toggleGoal\<close> maps over the collection, for a goal whose
  id matched. The three-way \<open>if\<close> of the completing branch is kept as the source has it.
\<close>

definition toggle_transition :: "string \<Rightarrow> string \<Rightarrow> Goal \<Rightarrow> Goal" where
  "toggle_transition today yesterday goal =
     (if lastCompletedDate goal = Some today then
        goal\<lparr>lastCompletedDate := None, streak := max 0 (streak goal - 1)\<rparr>
      else
        let newStreak =
              (if lastCompletedDate goal = Some yesterday then streak goal + 1
               else if lastCompletedDate goal = Some today then streak goal
               else 1)
        in goal\<lparr>lastCompletedDate := Some today, streak := newStreak\<rparr>)"

definition toggleGoal :: "string \<Rightarrow> string \<Rightarrow> string \<Rightarrow> app_state \<Rightarrow> app_state" where
  "toggleGoal today yesterday i st =
     st\<lparr>goals := map (\<lambda>goal. if goal_id goal \<noteq> i then goal
                              else toggle_transition today yesterday goal) (goals st)\<rparr>"

text \<open>
  The policy of the specification (its section 4.2), written from the specification's
  words: rule 1 unchecks a goal completed today; rule 2 completes the goal, continuing the
  streak from yesterday or restarting it at 1.
\<close>

definition toggle_policy_spec :: "string \<Rightarrow> string \<Rightarrow> Goal \<Rightarrow> Goal" where
  "toggle_policy_spec today yesterday goal =
     (if lastCompletedDate goal = Some today then
        goal\<lparr>lastCompletedDate := None, streak := max 0 (streak goal - 1)\<rparr>
      else if lastCompletedDate goal = Some yesterday then
        goal\<lparr>lastCompletedDate := Some today, streak := streak goal + 1\<rparr>
      else
        goal\<lparr>lastCompletedDate := Some today, streak := 1\<rparr>)"

subsection \<open>\<open>addGoal\<close>\<close>

text \<open>\<open>uuid\<close> is the value of \<open>crypto.randomUUID()\<close> and \<open>now\<close> the value of
  \<open>new Date().toISOString()\<close> at the call.\<close>

definition addGoal :: "string \<Rightarrow> string \<Rightarrow> string \<Rightarrow> string \<Rightarrow> app_state \<Rightarrow> app_state" where
  "addGoal uuid now ttl descr st =
     (let newGoal = \<lparr>goal_id = uuid, title = ttl, description = descr, createdAt = now,
                      streak = 0, lastCompletedDate = None, photos = []\<rparr>
      in st\<lparr>goals := newGoal # goals st\<rparr>)"

subsection \<open>\<open>addPhoto\<close>\<close>

text \<open>
  \<open>await resizeImage(file)\<close> either yields the encoded image (\<open>Inr\<close>) or rejects with an
  error value (\<open>Inl\<close>), which the \<open>catch\<close> block handles. The state \<open>st\<close> is the state at
  the moment the promise settles: the updater passed to \<open>setGoals\<close> reads \<open>prev\<close> then.
\<close>

definition addPhoto ::
  "('f \<Rightarrow> 'e + string) \<Rightarrow> string \<Rightarrow> string \<Rightarrow> string \<Rightarrow> 'f \<Rightarrow> app_state \<Rightarrow> app_state" where
  "addPhoto resizeImage uuid now i file st =
     (case resizeImage file of
        Inr resizedBase64 \<Rightarrow>
          st\<lparr>goals := map (\<lambda>goal. if goal_id goal \<noteq> i then goal
                                   else goal\<lparr>photos := photos goal @
                                          [\<lparr>photo_id = uuid, date = now,
                                            dataUrl = resizedBase64\<rparr>]\<rparr>) (goals st)\<rparr>
      | Inl error \<Rightarrow>
          st\<lparr>console_errors := console_errors st @ [''Error processing image''],
             alerts := alerts st @ [''Failed to process image. Try a smaller file.'']\<rparr>)"

subsection \<open>Loading from \<open>localStorage\<close>\<close>


subsection \<open>The daily notification\<close>

text \<open>The template literal of the reminder; the flame emoji U+1F525 is its four UTF-8
  bytes.\<close>

definition reminder :: "string \<Rightarrow> string" where
  "reminder ttl =
     ''Don'' @ [CHR 0x27] @ ''t forget '' @ ttl @ ''! Keep your streak alive '' @
     [CHR 0xF0, CHR 0x9F, CHR 0x94, CHR 0xA5]"

text \<open>
  One run of the notification effect. The first component of the result is the reminder
  this run passed to \<open>setNotification\<close>, if it made that call; the second is the state
  after the run.
\<close>

definition notification_effect :: "string \<Rightarrow> app_state \<Rightarrow> string option \<times> app_state" where
  "notification_effect today st =
     (if loading st then (None, st)
      else
        let lastNotified = localStorage st ''lastNotificationDate'' in
        if lastNotified \<noteq> Some today \<and> length (goals st) > 0 then
          (case find (\<lambda>g. lastCompletedDate g \<noteq> Some today) (goals st) of
             Some incompleteGoal \<Rightarrow>
               (Some (reminder (title incompleteGoal)),
                st\<lparr>notification := Some (reminder (title incompleteGoal)),
                   localStorage := (localStorage st)(''lastNotificationDate'' \<mapsto> today)\<rparr>)
           | None \<Rightarrow> (None, st))
        else (None, st))"


text \<open>
  The effect has the dependencies \<open>[loading, goals]\<close>: it runs again after every change of
  the collection. \<open>notification_runs\<close> is the effect run after each of a sequence of
  collections in turn, on one day; it returns the reminders emitted, in order.
\<close>

fun notification_runs :: "string \<Rightarrow> Goal list list \<Rightarrow> app_state \<Rightarrow> string list \<times> app_state" where
  "notification_runs today [] st = ([], st)"
| "notification_runs today (gs # gss) st =
     (case notification_effect today (st\<lparr>goals := gs\<rparr>) of
        (r, st') \<Rightarrow>
          (case notification_runs today gss st' of
             (rs, st'') \<Rightarrow> ((case r of None \<Rightarrow> [] | Some m \<Rightarrow> [m]) @ rs, st'')))"

subsection \<open>Example data\<close>

text \<open>The goal of the specification's scenarios, a second goal completed on
  \<open>2024-01-02\<close>, and a loaded application state over a given collection and storage.\<close>

definition goal_read :: Goal where
  "goal_read = \<lparr>goal_id = ''g1'', title = ''Read'', description = ''Ten pages'',
                 createdAt = ''2023-12-27T08:00:00.000Z'', streak = 5,
                 lastCompletedDate = Some ''2024-01-01'', photos = []\<rparr>"

definition goal_run :: Goal where
  "goal_run = \<lparr>goal_id = ''g2'', title = ''Run'', description = ''5 km'',
                createdAt = ''2023-12-30T08:00:00.000Z'', streak = 3,
                lastCompletedDate = Some ''2024-01-02'', photos = []\<rparr>"

definition loaded_state :: "Goal list \<Rightarrow> (string \<rightharpoonup> string) \<Rightarrow> app_state" where
  "loaded_state gs store = (initial_state store)\<lparr>goals := gs, loading := False\<rparr>"


definition resize_sample :: "string \<Rightarrow> string + string" where
  "resize_sample file =
     (if file = ''photo.jpg'' then Inr ''data:image/jpeg;base64,AAAA''
      else Inl ''ImageDecodeError'')"

section \<open>Properties\<close>

subsection \<open>The streak policy\<close>

text \<open>
  Claim C1. For every goal and every pair of day strings \<open>today\<close> and \<open>yesterday\<close>, the
  toggle follows the two-rule policy: a goal completed today is unchecked
  (\<open>lastCompletedDate\<close> absent, streak \<open>max 0 (streak - 1)\<close>); any other goal gets
  \<open>lastCompletedDate = today\<close>, with streak \<open>streak + 1\<close> when it was last completed
  yesterday and streak \<open>1\<close> otherwise.
\<close>

theorem toggle_two_rule_policy:
  "(lastCompletedDate g = Some today \<longrightarrow>
      lastCompletedDate (toggle_transition today yesterday g) = None \<and>
      streak (toggle_transition today yesterday g) = max 0 (streak g - 1)) \<and>
   (lastCompletedDate g \<noteq> Some today \<longrightarrow>
      lastCompletedDate (toggle_transition today yesterday g) = Some today \<and>
      (lastCompletedDate g = Some yesterday \<longrightarrow>
         streak (toggle_transition today yesterday g) = streak g + 1) \<and>
      (lastCompletedDate g \<noteq> Some yesterday \<longrightarrow>
         streak (toggle_transition today yesterday g) = 1))"
  by (simp add: toggle_transition_def)

text \<open>The three rules at the specification's scenarios: unchecking a goal completed today
  (streak 3 to 2), continuing from yesterday (5 to 6), and restarting after a gap (5 to 1).\<close>

theorem toggle_two_rule_policy_witness:
  "lastCompletedDate goal_run = Some ''2024-01-02'' \<and>
   lastCompletedDate (toggle_transition ''2024-01-02'' ''2024-01-01'' goal_run) = None \<and>
   streak (toggle_transition ''2024-01-02'' ''2024-01-01'' goal_run) = 2 \<and>
   lastCompletedDate goal_read \<noteq> Some ''2024-01-02'' \<and>
   lastCompletedDate goal_read = Some ''2024-01-01'' \<and>
   lastCompletedDate (toggle_transition ''2024-01-02'' ''2024-01-01'' goal_read) = Some ''2024-01-02'' \<and>
   streak (toggle_transition ''2024-01-02'' ''2024-01-01'' goal_read) = 6 \<and>
   lastCompletedDate goal_read \<noteq> Some ''2024-01-05'' \<and>
   lastCompletedDate goal_read \<noteq> Some ''2024-01-04'' \<and>
   streak (toggle_transition ''2024-01-05'' ''2024-01-04'' goal_read) = 1"
  using toggle_two_rule_policy [of goal_run "''2024-01-02''" "''2024-01-01''"]
        toggle_two_rule_policy [of goal_read "''2024-01-02''" "''2024-01-01''"]
        toggle_two_rule_policy [of goal_read "''2024-01-05''" "''2024-01-04''"]
  by (simp add: goal_read_def goal_run_def)

subsection \<open>Non-negative streaks\<close>

text \<open>
  The claim that the streak after a toggle is non-negative whatever the prior streak
  fails: continuing from yesterday adds one, without a floor, so a prior streak of \<open>-5\<close>
  becomes \<open>-4\<close>. Only the uncheck branch applies \<open>Math.max(0, _)\<close>.
\<close>

theorem toggle_negative_streak_counterexample:
  "streak (toggle_transition ''2024-01-02'' ''2024-01-01'' (goal_read\<lparr>streak := - 5\<rparr>)) = - 4 \<and>
   \<not> 0 \<le> streak (toggle_transition ''2024-01-02'' ''2024-01-01'' (goal_read\<lparr>streak := - 5\<rparr>))"
  by (simp add: toggle_transition_def goal_read_def)

lemma toggle_transition_streak_nonneg:
  "0 \<le> streak g \<Longrightarrow> 0 \<le> streak (toggle_transition today yesterday g)"
  by (simp add: toggle_transition_def)

text \<open>
  Claim C2, as amended. The streak after a toggle is non-negative exactly when the goal was
  completed today (the uncheck floors at 0), or was not last completed yesterday (the
  streak restarts at 1), or had a prior streak of at least \<open>-1\<close>. In particular
  \<open>streak \<ge> 0\<close> is an invariant of the collection that every \<open>toggleGoal\<close> call preserves.
\<close>

theorem toggle_streak_nonneg:
  "(0 \<le> streak (toggle_transition today yesterday g) \<longleftrightarrow>
      lastCompletedDate g = Some today \<or> lastCompletedDate g \<noteq> Some yesterday \<or> - 1 \<le> streak g) \<and>
   ((\<forall>g \<in> set (goals st). 0 \<le> streak g) \<longrightarrow>
      (\<forall>g \<in> set (goals (toggleGoal today yesterday i st)). 0 \<le> streak g))"
proof (intro conjI impI)
  show "0 \<le> streak (toggle_transition today yesterday g) \<longleftrightarrow>
      lastCompletedDate g = Some today \<or> lastCompletedDate g \<noteq> Some yesterday \<or> - 1 \<le> streak g"
    by (auto simp add: toggle_transition_def)
next
  assume inv: "\<forall>g \<in> set (goals st). 0 \<le> streak g"
  show "\<forall>g \<in> set (goals (toggleGoal today yesterday i st)). 0 \<le> streak g"
  proof
    fix g' assume "g' \<in> set (goals (toggleGoal today yesterday i st))"
    then obtain g where g: "g \<in> set (goals st)"
      and g': "g' = (if goal_id g \<noteq> i then g else toggle_transition today yesterday g)"
      by (auto simp add: toggleGoal_def)
    from inv g have "0 \<le> streak g" by blast
    with g' show "0 \<le> streak g'"
      by (simp add: toggle_transition_streak_nonneg)
  qed
qed

theorem toggle_streak_nonneg_witness:
  "lastCompletedDate goal_run = Some ''2024-01-02'' \<and>
   0 \<le> streak (toggle_transition ''2024-01-02'' ''2024-01-01'' (goal_run\<lparr>streak := - 5\<rparr>)) \<and>
   lastCompletedDate goal_read \<noteq> Some ''2024-01-04'' \<and>
   0 \<le> streak (toggle_transition ''2024-01-05'' ''2024-01-04'' (goal_read\<lparr>streak := - 5\<rparr>)) \<and>
   list_all (\<lambda>g. 0 \<le> streak g) (goals (loaded_state [goal_read, goal_run] Map.empty)) \<and>
   list_all (\<lambda>g. 0 \<le> streak g)
     (goals (toggleGoal ''2024-01-02'' ''2024-01-01'' ''g1''
               (loaded_state [goal_read, goal_run] Map.empty)))"
  using toggle_streak_nonneg [of "''2024-01-02''" "''2024-01-01''" "goal_run\<lparr>streak := - 5\<rparr>"
          "loaded_state [goal_read, goal_run] Map.empty" "''g1''"]
        toggle_streak_nonneg [of "''2024-01-05''" "''2024-01-04''" "goal_read\<lparr>streak := - 5\<rparr>"
          "loaded_state [goal_read, goal_run] Map.empty" "''g1''"]
  by (simp add: list_all_iff goal_read_def goal_run_def loaded_state_def initial_state_def)

subsection \<open>Toggling twice on the same day\<close>

text \<open>
  The claim that completing and then unchecking restores \<open>streak\<close> and
  \<open>lastCompletedDate\<close> fails. After a gap the first toggle restarts the streak at 1 and
  the second floors it to 0, so a streak of 5 is lost; and the uncheck always sets
  \<open>lastCompletedDate\<close> to \<open>null\<close>, so a prior date is lost even when the streak comes back.
\<close>

theorem toggle_twice_counterexample:
  "lastCompletedDate goal_read \<noteq> Some ''2024-01-05'' \<and>
   streak goal_read \<noteq> 0 \<and>
   streak (toggle_transition ''2024-01-05'' ''2024-01-04''
            (toggle_transition ''2024-01-05'' ''2024-01-04'' goal_read)) \<noteq> streak goal_read \<and>
   lastCompletedDate goal_read \<noteq> Some ''2024-01-02'' \<and>
   lastCompletedDate (toggle_transition ''2024-01-02'' ''2024-01-01''
            (toggle_transition ''2024-01-02'' ''2024-01-01'' goal_read))
     \<noteq> lastCompletedDate goal_read"
  by (simp add: toggle_transition_def goal_read_def)

text \<open>
  Claim C3, as amended. For a goal not completed today, two toggles with the same \<open>today\<close>
  and \<open>yesterday\<close> return the goal with \<open>lastCompletedDate\<close> absent and with streak
  \<open>max 0 streak\<close> if it was last completed yesterday and \<open>0\<close> otherwise; every other field
  is as before. So \<open>lastCompletedDate\<close> is restored exactly when it was absent, and the
  streak exactly when it was 0, or was non-negative on a goal last completed yesterday.
\<close>

theorem toggle_twice:
  "lastCompletedDate g \<noteq> Some today \<Longrightarrow>
   toggle_transition today yesterday (toggle_transition today yesterday g) =
     g\<lparr>lastCompletedDate := None,
       streak := (if lastCompletedDate g = Some yesterday then max 0 (streak g) else 0)\<rparr> \<and>
   (lastCompletedDate (toggle_transition today yesterday (toggle_transition today yesterday g))
      = lastCompletedDate g \<longleftrightarrow> lastCompletedDate g = None) \<and>
   (streak (toggle_transition today yesterday (toggle_transition today yesterday g))
      = streak g \<longleftrightarrow>
    streak g = 0 \<or> (lastCompletedDate g = Some yesterday \<and> 0 \<le> streak g))"
  by (auto simp add: toggle_transition_def)

theorem toggle_twice_witness:
  "lastCompletedDate goal_read \<noteq> Some ''2024-01-02'' \<and>
   streak (toggle_transition ''2024-01-02'' ''2024-01-01''
            (toggle_transition ''2024-01-02'' ''2024-01-01'' goal_read)) = 5 \<and>
   lastCompletedDate (toggle_transition ''2024-01-02'' ''2024-01-01''
            (toggle_transition ''2024-01-02'' ''2024-01-01'' goal_read)) = None"
proof -
  have h: "lastCompletedDate goal_read \<noteq> Some ''2024-01-02''"
    by (simp add: goal_read_def)
  show ?thesis
    using h toggle_twice [OF h, of "''2024-01-01''"] by (simp add: goal_read_def)
qed

subsection \<open>The daily notification\<close>

text \<open>A run either changes nothing, or emits a reminder and stores today; once today is
  stored, no later run of that day emits anything.\<close>

lemma notification_effect_marked:
  "localStorage st ''lastNotificationDate'' = Some today \<Longrightarrow>
   notification_effect today st = (None, st)"
  by (simp add: notification_effect_def)

lemma notification_effect_cases:
  "notification_effect today st = (None, st) \<or>
   (\<exists>m st'. notification_effect today st = (Some m, st') \<and>
      localStorage st' ''lastNotificationDate'' = Some today)"
  by (auto simp add: notification_effect_def Let_def split: option.splits)

lemma notification_runs_marked:
  "localStorage st ''lastNotificationDate'' = Some today \<Longrightarrow>
   fst (notification_runs today gss st) = []"
proof (induction gss arbitrary: st)
  case Nil
  then show ?case by simp
next
  case (Cons gs gss)
  from Cons.prems have eff: "notification_effect today (st\<lparr>goals := gs\<rparr>) = (None, st\<lparr>goals := gs\<rparr>)"
    by (simp add: notification_effect_marked)
  from Cons.prems have "fst (notification_runs today gss (st\<lparr>goals := gs\<rparr>)) = []"
    by (simp add: Cons.IH)
  with eff show ?case
    by (simp split: prod.splits)
qed

lemma notification_runs_at_most_one:
  "length (fst (notification_runs today gss st)) \<le> 1"
proof (induction gss arbitrary: st)
  case Nil
  then show ?case by simp
next
  case (Cons gs gss)
  consider (quiet) "notification_effect today (st\<lparr>goals := gs\<rparr>) = (None, st\<lparr>goals := gs\<rparr>)"
    | (fired) m st' where "notification_effect today (st\<lparr>goals := gs\<rparr>) = (Some m, st')"
        "localStorage st' ''lastNotificationDate'' = Some today"
    using notification_effect_cases [of today "st\<lparr>goals := gs\<rparr>"] by blast
  then show ?case
  proof cases
    case quiet
    with Cons.IH [of "st\<lparr>goals := gs\<rparr>"] show ?thesis
      by (simp split: prod.splits)
  next
    case fired
    from fired(2) have "fst (notification_runs today gss st') = []"
      by (rule notification_runs_marked)
    with fired(1) show ?thesis
      by (auto split: prod.splits)
  qed
qed

text \<open>
  Claim C4. The notification check fires at most once per calendar day. If the stored
  \<open>lastNotificationDate\<close> is today, the run emits no reminder and leaves the state as it
  is; a run that emits a reminder stores today as \<open>lastNotificationDate\<close>; a second
  run on the same day over the state the first run left emits nothing and changes
  nothing; and over any sequence of collections on one day the runs emit at most one
  reminder.
\<close>

theorem notification_at_most_once:
  "(localStorage st ''lastNotificationDate'' = Some today \<longrightarrow>
      notification_effect today st = (None, st)) \<and>
   (fst (notification_effect today st) \<noteq> None \<longrightarrow>
      localStorage (snd (notification_effect today st)) ''lastNotificationDate'' = Some today) \<and>
   notification_effect today (snd (notification_effect today st)) =
     (None, snd (notification_effect today st)) \<and>
   length (fst (notification_runs today gss st)) \<le> 1"
proof (intro conjI)
  show "localStorage st ''lastNotificationDate'' = Some today \<longrightarrow>
      notification_effect today st = (None, st)"
    by (simp add: notification_effect_marked)
  show "fst (notification_effect today st) \<noteq> None \<longrightarrow>
      localStorage (snd (notification_effect today st)) ''lastNotificationDate'' = Some today"
    using notification_effect_cases [of today st] by auto
  show "notification_effect today (snd (notification_effect today st)) =
     (None, snd (notification_effect today st))"
    using notification_effect_cases [of today st]
    by (auto simp add: notification_effect_marked)
  show "length (fst (notification_runs today gss st)) \<le> 1"
    by (rule notification_runs_at_most_one)
qed

theorem notification_at_most_once_witness:
  "localStorage (loaded_state [goal_read] [''lastNotificationDate'' \<mapsto> ''2024-01-02''])
     ''lastNotificationDate'' = Some ''2024-01-02'' \<and>
   fst (notification_effect ''2024-01-02''
         (loaded_state [goal_read] [''lastNotificationDate'' \<mapsto> ''2024-01-02''])) = None \<and>
   fst (notification_effect ''2024-01-02'' (loaded_state [goal_read] Map.empty)) =
     Some (reminder ''Read'') \<and>
   localStorage (snd (notification_effect ''2024-01-02'' (loaded_state [goal_read] Map.empty)))
     ''lastNotificationDate'' = Some ''2024-01-02'' \<and>
   fst (notification_effect ''2024-01-02''
         (snd (notification_effect ''2024-01-02'' (loaded_state [goal_read] Map.empty)))) = None \<and>
   length (fst (notification_runs ''2024-01-02'' [[goal_run], [goal_run, goal_read], [goal_read]]
                  (loaded_state [goal_read] Map.empty))) \<le> 1"
proof -
  have fires: "fst (notification_effect ''2024-01-02'' (loaded_state [goal_read] Map.empty)) =
     Some (reminder ''Read'')"
    by (simp add: notification_effect_def loaded_state_def initial_state_def goal_read_def)
  have marked: "localStorage (loaded_state [goal_read] [''lastNotificationDate'' \<mapsto> ''2024-01-02''])
     ''lastNotificationDate'' = Some ''2024-01-02''"
    by (simp add: loaded_state_def initial_state_def)
  show ?thesis
    using fires marked
      notification_at_most_once [of "loaded_state [goal_read] [''lastNotificationDate'' \<mapsto> ''2024-01-02'']"
         "''2024-01-02''"]
      notification_at_most_once [of "loaded_state [goal_read] Map.empty" "''2024-01-02''"
         "[[goal_run], [goal_run, goal_read], [goal_read]]"]
    by simp
qed

lemma find_first_incomplete:
  "\<forall>p \<in> set pre. \<not> P p \<Longrightarrow> P g \<Longrightarrow> find P (pre @ g # post) = Some g"
  by (induction pre) simp_all

lemma find_none_complete:
  "\<forall>p \<in> set gs. \<not> P p \<Longrightarrow> find P gs = None"
  by (induction gs) simp_all

text \<open>
  Claim C5. Once the collection is loaded and the stored \<open>lastNotificationDate\<close> is not
  today: if the collection is \<open>pre @ g # post\<close> with every goal of \<open>pre\<close> completed today and
  \<open>g\<close> not, the run emits the message \<open>Don't forget\<close>, the title of \<open>g\<close>,
  \<open>! Keep your streak alive\<close> and the flame emoji, shows it as the notification and stores
  today as \<open>lastNotificationDate\<close>; if every goal is completed today, the run emits
  nothing and leaves the state, the stored day included, as it is. The message is written
  out in the statement, so the title of the selected goal is part of it.
\<close>

theorem notification_first_incomplete:
  assumes "\<not> loading st" and "localStorage st ''lastNotificationDate'' \<noteq> Some today"
  shows "(goals st = pre @ g # post \<and> (\<forall>p \<in> set pre. lastCompletedDate p = Some today) \<and>
          lastCompletedDate g \<noteq> Some today \<longrightarrow>
            notification_effect today st =
              (Some (''Don'' @ [CHR 0x27] @ ''t forget '' @ title g @ ''! Keep your streak alive '' @
                 [CHR 0xF0, CHR 0x9F, CHR 0x94, CHR 0xA5]),
               st\<lparr>notification :=
                    Some (''Don'' @ [CHR 0x27] @ ''t forget '' @ title g @ ''! Keep your streak alive '' @
                 [CHR 0xF0, CHR 0x9F, CHR 0x94, CHR 0xA5]),
                  localStorage := (localStorage st)(''lastNotificationDate'' \<mapsto> today)\<rparr>)) \<and>
         ((\<forall>p \<in> set (goals st). lastCompletedDate p = Some today) \<longrightarrow>
            notification_effect today st = (None, st))"
proof (intro conjI impI)
  assume a: "goals st = pre @ g # post \<and> (\<forall>p \<in> set pre. lastCompletedDate p = Some today) \<and>
          lastCompletedDate g \<noteq> Some today"
  then have "find (\<lambda>g. lastCompletedDate g \<noteq> Some today) (goals st) = Some g"
    by (simp add: find_first_incomplete)
  with a assms show "notification_effect today st =
              (Some (''Don'' @ [CHR 0x27] @ ''t forget '' @ title g @ ''! Keep your streak alive '' @
                 [CHR 0xF0, CHR 0x9F, CHR 0x94, CHR 0xA5]),
               st\<lparr>notification :=
                    Some (''Don'' @ [CHR 0x27] @ ''t forget '' @ title g @ ''! Keep your streak alive '' @
                 [CHR 0xF0, CHR 0x9F, CHR 0x94, CHR 0xA5]),
                  localStorage := (localStorage st)(''lastNotificationDate'' \<mapsto> today)\<rparr>)"
    by (simp add: notification_effect_def reminder_def)
next
  assume "\<forall>p \<in> set (goals st). lastCompletedDate p = Some today"
  then have "find (\<lambda>g. lastCompletedDate g \<noteq> Some today) (goals st) = None"
    by (simp add: find_none_complete)
  then show "notification_effect today st = (None, st)"
    by (simp add: notification_effect_def)
qed

theorem notification_first_incomplete_witness:
  "\<not> loading (loaded_state [goal_run, goal_read] Map.empty) \<and>
   localStorage (loaded_state [goal_run, goal_read] Map.empty) ''lastNotificationDate''
     \<noteq> Some ''2024-01-02'' \<and>
   goals (loaded_state [goal_run, goal_read] Map.empty) = [goal_run] @ goal_read # [] \<and>
   list_all (\<lambda>p. lastCompletedDate p = Some ''2024-01-02'') [goal_run] \<and>
   lastCompletedDate goal_read \<noteq> Some ''2024-01-02'' \<and>
   fst (notification_effect ''2024-01-02'' (loaded_state [goal_run, goal_read] Map.empty)) =
     Some (''Don'' @ [CHR 0x27] @ ''t forget Read! Keep your streak alive '' @
           [CHR 0xF0, CHR 0x9F, CHR 0x94, CHR 0xA5]) \<and>
   notification (snd (notification_effect ''2024-01-02''
                        (loaded_state [goal_run, goal_read] Map.empty))) =
     Some (''Don'' @ [CHR 0x27] @ ''t forget Read! Keep your streak alive '' @
           [CHR 0xF0, CHR 0x9F, CHR 0x94, CHR 0xA5]) \<and>
   localStorage (snd (notification_effect ''2024-01-02''
                        (loaded_state [goal_run, goal_read] Map.empty)))
     ''lastNotificationDate'' = Some ''2024-01-02'' \<and>
   \<not> loading (loaded_state [goal_run] Map.empty) \<and>
   localStorage (loaded_state [goal_run] Map.empty) ''lastNotificationDate''
     \<noteq> Some ''2024-01-02'' \<and>
   list_all (\<lambda>p. lastCompletedDate p = Some ''2024-01-02'')
     (goals (loaded_state [goal_run] Map.empty)) \<and>
   fst (notification_effect ''2024-01-02'' (loaded_state [goal_run] Map.empty)) = None \<and>
   localStorage (snd (notification_effect ''2024-01-02'' (loaded_state [goal_run] Map.empty)))
     ''lastNotificationDate'' = None"
proof -
  have l2: "\<not> loading (loaded_state [goal_run, goal_read] Map.empty)"
    and l1: "\<not> loading (loaded_state [goal_run] Map.empty)"
    by (simp_all add: loaded_state_def initial_state_def)
  have m2: "localStorage (loaded_state [goal_run, goal_read] Map.empty) ''lastNotificationDate''
     \<noteq> Some ''2024-01-02''"
    and m1: "localStorage (loaded_state [goal_run] Map.empty) ''lastNotificationDate''
     \<noteq> Some ''2024-01-02''"
    by (simp_all add: loaded_state_def initial_state_def)
  have title_read: "title goal_read = ''Read''"
    by (simp add: goal_read_def)
  have shape: "goals (loaded_state [goal_run, goal_read] Map.empty) = [goal_run] @ goal_read # []"
    and done_run: "\<forall>p \<in> set [goal_run]. lastCompletedDate p = Some ''2024-01-02''"
    and open_read: "lastCompletedDate goal_read \<noteq> Some ''2024-01-02''"
    and all_done: "\<forall>p \<in> set (goals (loaded_state [goal_run] Map.empty)).
      lastCompletedDate p = Some ''2024-01-02''"
    by (simp_all add: loaded_state_def initial_state_def goal_read_def goal_run_def)
  show ?thesis
    using l1 l2 m1 m2 shape done_run open_read all_done title_read
      notification_first_incomplete [OF l2 m2, of "[goal_run]" goal_read "[]"]
      notification_first_incomplete [OF l1 m1, of "[]" goal_read "[]"]
    by (simp add: list_all_iff loaded_state_def initial_state_def)
qed

subsection \<open>Adding a goal\<close>

text \<open>
  Claim C6. \<open>addGoal\<close> puts a new goal at the head of the collection, with the given
  title and description, \<open>streak = 0\<close>, \<open>lastCompletedDate\<close> absent, no photos and
  \<open>createdAt = now\<close>; the rest of the collection is the prior collection.
\<close>

theorem addGoal_prepends:
  "goals (addGoal uuid now ttl descr st) \<noteq> [] \<and>
   hd (goals (addGoal uuid now ttl descr st)) =
     \<lparr>goal_id = uuid, title = ttl, description = descr, createdAt = now,
      streak = 0, lastCompletedDate = None, photos = []\<rparr> \<and>
   tl (goals (addGoal uuid now ttl descr st)) = goals st"
  by (simp add: addGoal_def)

theorem addGoal_prepends_witness:
  "streak (hd (goals (addGoal ''g3'' ''2024-01-02T09:00:00.000Z'' ''Swim'' ''Twenty laps''
                 (loaded_state [goal_read, goal_run] Map.empty)))) = 0 \<and>
   title (hd (goals (addGoal ''g3'' ''2024-01-02T09:00:00.000Z'' ''Swim'' ''Twenty laps''
                 (loaded_state [goal_read, goal_run] Map.empty)))) = ''Swim'' \<and>
   map title (tl (goals (addGoal ''g3'' ''2024-01-02T09:00:00.000Z'' ''Swim'' ''Twenty laps''
                 (loaded_state [goal_read, goal_run] Map.empty)))) = [''Read'', ''Run'']"
  using addGoal_prepends [of "''g3''" "''2024-01-02T09:00:00.000Z''" "''Swim''"
                 "''Twenty laps''" "loaded_state [goal_read, goal_run] Map.empty"]
  by (simp add: loaded_state_def initial_state_def goal_read_def goal_run_def)

subsection \<open>Loading\<close>



subsection \<open>Attaching a photo\<close>

text \<open>
  Claim C8. If \<open>resizeImage\<close> rejects, \<open>addPhoto\<close> leaves the collection and the rest of
  the application state as they were and reports the error on the console and in an
  alert. If it resolves, the collection keeps its length; at every position a goal with
  the given id gets exactly one new entry, holding the encoded image, after its prior
  photos, and any other goal is unchanged; nothing is reported.
\<close>

theorem addPhoto_atomic:
  "(resizeImage file = Inl e \<longrightarrow>
      goals (addPhoto resizeImage uuid now i file st) = goals st \<and>
      loading (addPhoto resizeImage uuid now i file st) = loading st \<and>
      notification (addPhoto resizeImage uuid now i file st) = notification st \<and>
      localStorage (addPhoto resizeImage uuid now i file st) = localStorage st \<and>
      console_errors (addPhoto resizeImage uuid now i file st) =
        console_errors st @ [''Error processing image''] \<and>
      alerts (addPhoto resizeImage uuid now i file st) =
        alerts st @ [''Failed to process image. Try a smaller file.'']) \<and>
   (resizeImage file = Inr d \<longrightarrow>
      length (goals (addPhoto resizeImage uuid now i file st)) = length (goals st) \<and>
      (k < length (goals st) \<longrightarrow>
         (goal_id (goals st ! k) = i \<longrightarrow>
            goals (addPhoto resizeImage uuid now i file st) ! k =
              (goals st ! k)\<lparr>photos := photos (goals st ! k) @
                                 [\<lparr>photo_id = uuid, date = now, dataUrl = d\<rparr>]\<rparr>) \<and>
         (goal_id (goals st ! k) \<noteq> i \<longrightarrow>
            goals (addPhoto resizeImage uuid now i file st) ! k = goals st ! k)) \<and>
      console_errors (addPhoto resizeImage uuid now i file st) = console_errors st \<and>
      alerts (addPhoto resizeImage uuid now i file st) = alerts st)"
  by (simp add: addPhoto_def)

theorem addPhoto_atomic_witness:
  "resize_sample ''notes.txt'' = Inl ''ImageDecodeError'' \<and>
   goals (addPhoto resize_sample ''p1'' ''2024-01-02T09:00:00.000Z'' ''g1'' ''notes.txt''
            (loaded_state [goal_read, goal_run] Map.empty)) = [goal_read, goal_run] \<and>
   alerts (addPhoto resize_sample ''p1'' ''2024-01-02T09:00:00.000Z'' ''g1'' ''notes.txt''
            (loaded_state [goal_read, goal_run] Map.empty)) =
     [''Failed to process image. Try a smaller file.''] \<and>
   resize_sample ''photo.jpg'' = Inr ''data:image/jpeg;base64,AAAA'' \<and>
   (0::nat) < length (goals (loaded_state [goal_read, goal_run] Map.empty)) \<and>
   goal_id (goals (loaded_state [goal_read, goal_run] Map.empty) ! 0) = ''g1'' \<and>
   photos (goals (addPhoto resize_sample ''p1'' ''2024-01-02T09:00:00.000Z'' ''g1'' ''photo.jpg''
                    (loaded_state [goal_read, goal_run] Map.empty)) ! 0) =
     [\<lparr>photo_id = ''p1'', date = ''2024-01-02T09:00:00.000Z'',
       dataUrl = ''data:image/jpeg;base64,AAAA''\<rparr>] \<and>
   (1::nat) < length (goals (loaded_state [goal_read, goal_run] Map.empty)) \<and>
   goal_id (goals (loaded_state [goal_read, goal_run] Map.empty) ! 1) \<noteq> ''g1'' \<and>
   goals (addPhoto resize_sample ''p1'' ''2024-01-02T09:00:00.000Z'' ''g1'' ''photo.jpg''
            (loaded_state [goal_read, goal_run] Map.empty)) ! 1 = goal_run"
proof -
  let ?st = "loaded_state [goal_read, goal_run] Map.empty"
  have gs: "goals ?st = [goal_read, goal_run]" and al: "alerts ?st = []"
    by (simp_all add: loaded_state_def initial_state_def)
  have ids: "goal_id goal_read = ''g1''" "goal_id goal_run \<noteq> ''g1''" "photos goal_read = []"
    by (simp_all add: goal_read_def goal_run_def)
  have bad: "resize_sample ''notes.txt'' = Inl ''ImageDecodeError''"
    and good: "resize_sample ''photo.jpg'' = Inr ''data:image/jpeg;base64,AAAA''"
    by (simp_all add: resize_sample_def)
  show ?thesis
    using gs al ids bad good
      addPhoto_atomic [of resize_sample "''notes.txt''" "''ImageDecodeError''" "''p1''"
        "''2024-01-02T09:00:00.000Z''" "''g1''" ?st]
      addPhoto_atomic [of resize_sample "''photo.jpg''" _ "''p1''"
        "''2024-01-02T09:00:00.000Z''" "''g1''" ?st "''data:image/jpeg;base64,AAAA''" 0]
      addPhoto_atomic [of resize_sample "''photo.jpg''" _ "''p1''"
        "''2024-01-02T09:00:00.000Z''" "''g1''" ?st "''data:image/jpeg;base64,AAAA''" 1]
    by simp
qed

subsection \<open>The frame of \<open>toggleGoal\<close>\<close>

text \<open>
  Claim C9. \<open>toggleGoal\<close> keeps the length of the collection; at every position a goal
  whose id differs from the given id is returned unchanged, and a goal with the given id
  keeps its id, title, description, \<open>createdAt\<close> and photos; and if no goal has the given
  id the whole state is unchanged.
\<close>

theorem toggleGoal_frame:
  "length (goals (toggleGoal today yesterday i st)) = length (goals st) \<and>
   (k < length (goals st) \<longrightarrow>
      (goal_id (goals st ! k) \<noteq> i \<longrightarrow>
         goals (toggleGoal today yesterday i st) ! k = goals st ! k) \<and>
      (goal_id (goals st ! k) = i \<longrightarrow>
         goal_id (goals (toggleGoal today yesterday i st) ! k) = goal_id (goals st ! k) \<and>
         title (goals (toggleGoal today yesterday i st) ! k) = title (goals st ! k) \<and>
         description (goals (toggleGoal today yesterday i st) ! k) = description (goals st ! k) \<and>
         createdAt (goals (toggleGoal today yesterday i st) ! k) = createdAt (goals st ! k) \<and>
         photos (goals (toggleGoal today yesterday i st) ! k) = photos (goals st ! k))) \<and>
   ((\<forall>g \<in> set (goals st). goal_id g \<noteq> i) \<longrightarrow> toggleGoal today yesterday i st = st)"
proof (intro conjI impI)
  assume "\<forall>g \<in> set (goals st). goal_id g \<noteq> i"
  then have "map (\<lambda>goal. if goal_id goal \<noteq> i then goal
                           else toggle_transition today yesterday goal) (goals st) = goals st"
    by (simp add: map_idI)
  then show "toggleGoal today yesterday i st = st"
    by (simp add: toggleGoal_def)
qed (simp_all add: toggleGoal_def toggle_transition_def Let_def)

theorem toggleGoal_frame_witness:
  "(1::nat) < length (goals (loaded_state [goal_read, goal_run] Map.empty)) \<and>
   goal_id (goals (loaded_state [goal_read, goal_run] Map.empty) ! 1) \<noteq> ''g1'' \<and>
   goals (toggleGoal ''2024-01-02'' ''2024-01-01'' ''g1''
            (loaded_state [goal_read, goal_run] Map.empty)) ! 1 = goal_run \<and>
   (0::nat) < length (goals (loaded_state [goal_read, goal_run] Map.empty)) \<and>
   goal_id (goals (loaded_state [goal_read, goal_run] Map.empty) ! 0) = ''g1'' \<and>
   title (goals (toggleGoal ''2024-01-02'' ''2024-01-01'' ''g1''
            (loaded_state [goal_read, goal_run] Map.empty)) ! 0) = ''Read'' \<and>
   photos (goals (toggleGoal ''2024-01-02'' ''2024-01-01'' ''g1''
            (loaded_state [goal_read, goal_run] Map.empty)) ! 0) = [] \<and>
   list_all (\<lambda>g. goal_id g \<noteq> ''g9'') (goals (loaded_state [goal_read, goal_run] Map.empty)) \<and>
   goals (toggleGoal ''2024-01-02'' ''2024-01-01'' ''g9''
            (loaded_state [goal_read, goal_run] Map.empty)) = [goal_read, goal_run]"
proof -
  let ?st = "loaded_state [goal_read, goal_run] Map.empty"
  have gs: "goals ?st = [goal_read, goal_run]"
    by (simp add: loaded_state_def initial_state_def)
  have fields: "goal_id goal_read = ''g1''" "goal_id goal_run = ''g2''"
    "title goal_read = ''Read''" "photos goal_read = []"
    by (simp_all add: goal_read_def goal_run_def)
  show ?thesis
    using gs fields
      toggleGoal_frame [of "''2024-01-02''" "''2024-01-01''" "''g1''" ?st 1]
      toggleGoal_frame [of "''2024-01-02''" "''2024-01-01''" "''g1''" ?st 0]
      toggleGoal_frame [of "''2024-01-02''" "''2024-01-01''" "''g9''" ?st 0]
    by (simp add: list_all_iff)
qed

subsection \<open>The unreachable branch\<close>

text \<open>
  Claim C10. The middle case of the completing branch, which tests
  \<open>lastCompletedDate === today\<close> again, is never taken: the per-goal transition of
  \<open>toggleGoal\<close> equals the two-rule policy of the specification, which has no such case,
  on every goal and every pair of days, and so \<open>toggleGoal\<close> is the map of that policy over
  the goals with the given id.
\<close>

theorem toggle_refines_policy:
  "toggle_transition today yesterday g = toggle_policy_spec today yesterday g \<and>
   toggleGoal today yesterday i st =
     st\<lparr>goals := map (\<lambda>goal. if goal_id goal = i then toggle_policy_spec today yesterday goal
                              else goal) (goals st)\<rparr>"
  by (simp add: toggleGoal_def toggle_transition_def toggle_policy_spec_def)

theorem toggle_refines_policy_witness:
  "toggle_policy_spec ''2024-01-02'' ''2024-01-01'' goal_read =
     goal_read\<lparr>lastCompletedDate := Some ''2024-01-02'', streak := 6\<rparr> \<and>
   toggle_transition ''2024-01-02'' ''2024-01-01'' goal_read =
     goal_read\<lparr>lastCompletedDate := Some ''2024-01-02'', streak := 6\<rparr>"
proof -
  have "toggle_policy_spec ''2024-01-02'' ''2024-01-01'' goal_read =
     goal_read\<lparr>lastCompletedDate := Some ''2024-01-02'', streak := 6\<rparr>"
    by (simp add: toggle_policy_spec_def goal_read_def)
  then show ?thesis
    using toggle_refines_policy [of "''2024-01-02''" "''2024-01-01''" goal_read]
    by simp
qed

end
